theory Spec2Isabelle
  imports Complex_Main "HOL-Library.AList"
begin

section \<open>Data model\<close>

text \<open>
  A cell is a scalar as pandas stores it: a missing value (Python \<^verbatim>\<open>None\<close> or the float
  \<^verbatim>\<open>nan\<close>; \<^verbatim>\<open>pd.isna\<close> holds of both), a number or a string. A number is a Python
  or numpy int (\<open>IntV\<close>), or a float with an integral value (\<open>FloatV\<close>): the
  integers of a numeric column that has a missing value are stored as floats. Floats with
  a fractional part are outside the model, and a column is taken not to hold the same
  number both as an int and as a float.
\<close>

datatype cell = NoneV | NaN | IntV int | FloatV int | StrV string

datatype error = KeyError string | ValueError string | OSError string

text \<open>
  A DataFrame is its row count (\<^verbatim>\<open>len(df)\<close>) and its columns in order.
  \<^verbatim>\<open>df[c]\<close> raises \<^verbatim>\<open>KeyError\<close> when the column is absent;
  \<^verbatim>\<open>df[c] = v\<close> overwrites the column in place when it exists and appends it otherwise.
\<close>

record dataframe =
  nrows :: nat
  cols :: "(string \<times> cell list) list"

definition columns :: "dataframe \<Rightarrow> string list" where
  "columns df = map fst (cols df)"

definition get_col :: "dataframe \<Rightarrow> string \<Rightarrow> error + cell list" where
  "get_col df c = (case map_of (cols df) c of None \<Rightarrow> Inl (KeyError c) | Some v \<Rightarrow> Inr v)"

definition set_col :: "dataframe \<Rightarrow> string \<Rightarrow> cell list \<Rightarrow> dataframe" where
  "set_col df c v = df\<lparr>cols := AList.update c v (cols df)\<rparr>"

definition isna :: "cell \<Rightarrow> bool" where
  "isna c = (c = NoneV \<or> c = NaN)"

text \<open>
  \<^verbatim>\<open>Series.unique()\<close>: the distinct values in order of first appearance (missing values
  included). \<^verbatim>\<open>Series.value_counts()\<close>: missing values dropped, one entry per distinct
  value with its number of occurrences, by descending count (ties in order of first
  appearance).
\<close>

definition unique :: "'a list \<Rightarrow> 'a list" where
  "unique xs = rev (remdups (rev xs))"

definition value_counts :: "cell list \<Rightarrow> (cell \<times> nat) list" where
  "value_counts xs =
     (let ys = filter (\<lambda>c. \<not> isna c) xs
      in sort_key (\<lambda>p. - int (snd p)) (map (\<lambda>v. (v, count_list ys v)) (unique ys)))"

text \<open>Decimal rendering of integers, as \<^verbatim>\<open>str\<close> and f-strings produce it.\<close>

fun str_nat :: "nat \<Rightarrow> string" where
  "str_nat n = (if n < 10 then [''0123456789'' ! n]
                else str_nat (n div 10) @ [''0123456789'' ! (n mod 10)])"

declare str_nat.simps [simp del]

definition str_int :: "int \<Rightarrow> string" where
  "str_int i = (if i < 0 then CHR ''-'' # str_nat (nat (- i)) else str_nat (nat i))"

text \<open>
  \<^verbatim>\<open>str(x)\<close> of a cell; an integral float prints with a trailing \<^verbatim>\<open>.0\<close> (in positional
  notation, which Python uses below \<open>10\<^sup>1\<^sup>6\<close>).
\<close>

fun py_str :: "cell \<Rightarrow> string" where
  "py_str NoneV = ''None''"
| "py_str NaN = ''nan''"
| "py_str (IntV i) = str_int i"
| "py_str (FloatV i) = str_int i @ ''.0''"
| "py_str (StrV s) = s"

section \<open>The analyzer state\<close>

text \<open>
  \<^verbatim>\<open>BotsV1Analyzer\<close>: the two stored batches and the findings per source
  (\<^verbatim>\<open>self.suspicious_events\<close>, a dict kept in insertion order).
\<close>

type_synonym findings = "(string \<times> nat) list"

record analyzer =
  winevent_df :: "dataframe option"
  dns_df :: "dataframe option"
  self_suspicious_events :: "(string \<times> findings) list"

section \<open>WinEvent analysis\<close>

datatype risk = High | Medium | Low

record event_info =
  name :: string
  risk :: risk
  desc :: string

text \<open>The local table \<^verbatim>\<open>suspicious_events\<close> of \<^verbatim>\<open>analyze_winevent_logs\<close>.\<close>

definition suspicious_events :: "(int \<times> event_info) list" where
  "suspicious_events =
   [(4624, \<lparr>name = ''Successful Logon'', risk = Medium, desc = ''Account successfully logged on''\<rparr>),
    (4625, \<lparr>name = ''Failed Logon'', risk = High, desc = ''Account failed to log on''\<rparr>),
    (4634, \<lparr>name = ''Logoff'', risk = Low, desc = ''Account logged off''\<rparr>),
    (4648, \<lparr>name = ''Logon with Explicit Credentials'', risk = High,
            desc = ''Logon using explicit credentials''\<rparr>),
    (4672, \<lparr>name = ''Special Privileges Assigned'', risk = High,
            desc = ''Special privileges assigned to new logon''\<rparr>),
    (4688, \<lparr>name = ''Process Creation'', risk = Medium, desc = ''A new process has been created''\<rparr>),
    (4689, \<lparr>name = ''Process Exit'', risk = Low, desc = ''A process has exited''\<rparr>),
    (4698, \<lparr>name = ''Scheduled Task Created'', risk = High, desc = ''A scheduled task was created''\<rparr>),
    (4703, \<lparr>name = ''Token Manipulation'', risk = High, desc = ''A user right was adjusted''\<rparr>),
    (4720, \<lparr>name = ''User Account Created'', risk = High, desc = ''A user account was created''\<rparr>),
    (4732, \<lparr>name = ''Member Added to Security Group'', risk = High,
            desc = ''A member was added to a security group''\<rparr>),
    (4768, \<lparr>name = ''Kerberos Ticket Request'', risk = Medium,
            desc = ''A Kerberos authentication ticket was requested''\<rparr>),
    (4769, \<lparr>name = ''Kerberos Service Ticket'', risk = Medium,
            desc = ''A Kerberos service ticket was requested''\<rparr>),
    (4776, \<lparr>name = ''Credential Validation'', risk = Medium,
            desc = ''Domain controller validated credentials''\<rparr>),
    (4798, \<lparr>name = ''User Group Membership'', risk = Medium,
            desc = ''A user's group membership was enumerated''\<rparr>),
    (4799, \<lparr>name = ''Security Group Membership'', risk = Medium,
            desc = ''A security group's membership was enumerated''\<rparr>),
    (5140, \<lparr>name = ''Share Accessed'', risk = Medium, desc = ''A network share object was accessed''\<rparr>),
    (5145, \<lparr>name = ''Share Access Check'', risk = Medium,
            desc = ''A network share object was checked for access''\<rparr>),
    (5156, \<lparr>name = ''Connection Allowed'', risk = Low,
            desc = ''Windows Filtering Platform allowed a connection''\<rparr>),
    (5158, \<lparr>name = ''Bind to Port'', risk = Medium,
            desc = ''Windows Filtering Platform permitted a bind to a local port''\<rparr>),
    (7045, \<lparr>name = ''Service Installed'', risk = High, desc = ''A service was installed in the system''\<rparr>)]"

text \<open>
  \<^verbatim>\<open>event_id in suspicious_events\<close> and \<^verbatim>\<open>suspicious_events[event_id]\<close>: the keys are
  Python ints; an int hits its key, and so does the float equal to it (equal numbers hash
  alike). A string or a missing value hits none.
\<close>

fun catalog_lookup :: "cell \<Rightarrow> event_info option" where
  "catalog_lookup (IntV i) = map_of suspicious_events i"
| "catalog_lookup (FloatV i) = map_of suspicious_events i"
| "catalog_lookup c = None"

definition in_catalog :: "cell \<Rightarrow> bool" where
  "in_catalog c = (catalog_lookup c \<noteq> None)"

text \<open>
  The f-string \<^verbatim>\<open>f"[{event_id}] {...['name']}"\<close>: the identifier prints as \<^verbatim>\<open>str\<close> prints
  it, so \<^verbatim>\<open>4625\<close> from an integer column and \<^verbatim>\<open>4625.0\<close> from a float column.
\<close>

definition event_name :: "cell \<Rightarrow> event_info \<Rightarrow> string" where
  "event_name event_id info = ''['' @ py_str event_id @ ''] '' @ name info"

text \<open>The loop building \<^verbatim>\<open>result\<close> from \<^verbatim>\<open>suspicious_counts.items()\<close>.\<close>

fun build_result :: "(cell \<times> nat) list \<Rightarrow> findings \<Rightarrow> findings" where
  "build_result [] result = result"
| "build_result ((event_id, count) # rest) result =
     (case catalog_lookup event_id of
        None \<Rightarrow> build_result rest result
      | Some info \<Rightarrow> build_result rest (AList.update (event_name event_id info) count result))"

text \<open>
  The loop over \<^verbatim>\<open>suspicious_df['EventCode'].unique()\<close> adding
  \<^verbatim>\<open>suspicious_counts[event_id]\<close> to the tier of the identifier; the indexing raises
  \<^verbatim>\<open>KeyError\<close> for a label the counts do not hold.
\<close>

type_synonym risk_levels = "(risk \<times> nat) list"

fun add_risk_levels :: "(cell \<times> nat) list \<Rightarrow> cell list \<Rightarrow> risk_levels \<Rightarrow> error + risk_levels" where
  "add_risk_levels suspicious_counts [] rl = Inr rl"
| "add_risk_levels suspicious_counts (event_id # rest) rl =
     (case catalog_lookup event_id of
        None \<Rightarrow> add_risk_levels suspicious_counts rest rl
      | Some info \<Rightarrow>
          (case map_of suspicious_counts event_id of
             None \<Rightarrow> Inl (KeyError (py_str event_id))
           | Some count \<Rightarrow>
               add_risk_levels suspicious_counts rest
                 (AList.map_entry (risk info) (\<lambda>v. v + count) rl)))"

text \<open>
  What one call of \<^verbatim>\<open>analyze_winevent_logs\<close> computes: the returned \<^verbatim>\<open>result\<close> and the
  printed \<^verbatim>\<open>risk_levels\<close> (absent on the early return for a missing or empty batch).
\<close>

record winevent_report =
  result :: findings
  tiers :: "risk_levels option"

definition analyze_winevent_logs :: "analyzer \<Rightarrow> (error + winevent_report) \<times> analyzer" where
  "analyze_winevent_logs s =
     (case winevent_df s of
        None \<Rightarrow> (Inr \<lparr>result = [], tiers = None\<rparr>, s)
      | Some df \<Rightarrow>
          if nrows df = 0 then (Inr \<lparr>result = [], tiers = None\<rparr>, s)
          else
            (case get_col df ''EventCode'' of
               Inl e \<Rightarrow> (Inl e, s)
             | Inr event_code \<Rightarrow>
                 let suspicious_col = filter in_catalog event_code;
                     suspicious_counts = value_counts suspicious_col;
                     res = build_result suspicious_counts []
                 in (case add_risk_levels suspicious_counts (unique suspicious_col)
                            [(High, 0), (Medium, 0), (Low, 0)] of
                       Inl e \<Rightarrow> (Inl e, s)
                     | Inr rl \<Rightarrow>
                         (case get_col df ''ComputerName'' of
                            Inl e \<Rightarrow> (Inl e, s)
                          | Inr computer_name \<Rightarrow>
                              (Inr \<lparr>result = res, tiers = Some rl\<rparr>,
                               s\<lparr>self_suspicious_events :=
                                    AList.update ''WinEvent'' res (self_suspicious_events s)\<rparr>)))))"

text \<open>The label under which a counted identifier enters \<^verbatim>\<open>result\<close>, if it enters.\<close>

definition label_of :: "cell \<Rightarrow> string option" where
  "label_of c = map_option (event_name c) (catalog_lookup c)"

text \<open>The catalog as the cells that hit it, each with its entry.\<close>

definition catalog_cells :: "(cell \<times> event_info) list" where
  "catalog_cells =
     map (\<lambda>p. (IntV (fst p), snd p)) suspicious_events @
     map (\<lambda>p. (FloatV (fst p), snd p)) suspicious_events"

text \<open>
  The batches on which \<^verbatim>\<open>analyze_winevent_logs\<close> raises nothing: no batch, an empty
  one, or one with the two columns it indexes. The tier total of a report counts the
  absent tiers of the early return as zero.
\<close>

definition winevent_ready :: "analyzer \<Rightarrow> bool" where
  "winevent_ready s =
     (case winevent_df s of
        None \<Rightarrow> True
      | Some df \<Rightarrow> nrows df = 0 \<or>
          (''EventCode'' \<in> set (columns df) \<and> ''ComputerName'' \<in> set (columns df)))"

definition tier_total :: "winevent_report \<Rightarrow> nat" where
  "tier_total rep = (case tiers rep of None \<Rightarrow> 0 | Some rl \<Rightarrow> sum_list (map snd rl))"

section \<open>DNS analysis\<close>

definition suspicious_tlds :: "string list" where
  "suspicious_tlds =
     [''.xyz'', ''.top'', ''.work'', ''.date'', ''.win'', ''.bid'', ''.trade'', ''.cc'', ''.info'']"

text \<open>\<^verbatim>\<open>s.split('.')\<close>: the pieces between the dots, never an empty list.\<close>

fun split_dot :: "string \<Rightarrow> string list" where
  "split_dot [] = [[]]"
| "split_dot (c # cs) =
     (if c = CHR ''.'' then [] # split_dot cs
      else (c # hd (split_dot cs)) # tl (split_dot cs))"

definition get_tld :: "cell \<Rightarrow> string" where
  "get_tld domain =
     (if isna domain then []
      else let parts = split_dot (py_str domain)
           in if length parts > 1 then ''.'' @ last parts else [])"

definition unusual_query_types :: "string list" where
  "unusual_query_types = [''TXT'', ''ANY'', ''AXFR'', ''CNAME'']"

text \<open>
  \<^verbatim>\<open>Series.mean()\<close> and \<^verbatim>\<open>Series.std()\<close> over the reals (binary64 rounding is not
  modelled). The float \<^verbatim>\<open>nan\<close> they return on too short a series is \<open>None\<close>:
  the mean needs one value, and \<^verbatim>\<open>std\<close>, whose default is \<^verbatim>\<open>ddof=1\<close>, divides by
  \<open>n - 1\<close> and needs two. Arithmetic with \<^verbatim>\<open>nan\<close> gives \<^verbatim>\<open>nan\<close>, and every
  comparison with it is false.
\<close>

definition series_mean :: "nat list \<Rightarrow> real option" where
  "series_mean xs =
     (if xs = [] then None else Some (real (sum_list xs) / real (length xs)))"

definition series_std :: "nat list \<Rightarrow> real option" where
  "series_std xs =
     (case series_mean xs of
        None \<Rightarrow> None
      | Some m \<Rightarrow>
          if length xs < 2 then None
          else Some (sqrt ((\<Sum>x\<leftarrow>xs. (real x - m)\<^sup>2) / real (length xs - 1))))"

definition ip_threshold :: "(cell \<times> nat) list \<Rightarrow> real option" where
  "ip_threshold ip_frequency =
     (case (series_mean (map snd ip_frequency), series_std (map snd ip_frequency)) of
        (Some m, Some sd) \<Rightarrow> Some (m + 2 * sd)
      | _ \<Rightarrow> None)"

definition high_frequency_ips :: "(cell \<times> nat) list \<Rightarrow> (cell \<times> nat) list" where
  "high_frequency_ips ip_frequency =
     (case ip_threshold ip_frequency of
        None \<Rightarrow> []
      | Some threshold \<Rightarrow> filter (\<lambda>p. real (snd p) > threshold) ip_frequency)"

text \<open>The selections of the six numbered heuristics; each reports the length of its own.\<close>

definition rare_domains :: "cell list \<Rightarrow> (cell \<times> nat) list" where
  "rare_domains domain = filter (\<lambda>p. snd p < 3) (value_counts domain)"

definition tld_column :: "cell list \<Rightarrow> cell list" where
  "tld_column domain = map (\<lambda>d. StrV (get_tld d)) domain"

definition suspicious_tld_queries :: "cell list \<Rightarrow> cell list" where
  "suspicious_tld_queries tld = filter (\<lambda>t. t \<in> set (map StrV suspicious_tlds)) tld"

definition failed_responses :: "cell list \<Rightarrow> cell list" where
  "failed_responses response_code =
     filter (\<lambda>c. c \<noteq> IntV 0 \<and> c \<noteq> FloatV 0) response_code"

definition domain_length_column :: "cell list \<Rightarrow> cell list" where
  "domain_length_column domain = map (\<lambda>d. IntV (int (length (py_str d)))) domain"

fun exceeds :: "int \<Rightarrow> cell \<Rightarrow> bool" where
  "exceeds k (IntV n) = (n > k)"
| "exceeds k (FloatV n) = (n > k)"
| "exceeds k c = False"

definition long_domains :: "cell list \<Rightarrow> cell list" where
  "long_domains domain_length = filter (exceeds 30) domain_length"

definition unusual_queries :: "cell list \<Rightarrow> cell list" where
  "unusual_queries query_type =
     filter (\<lambda>c. c \<in> set (map StrV unusual_query_types)) query_type"

text \<open>
  \<^verbatim>\<open>analyze_dns_logs\<close>. The first indexing of \<^verbatim>\<open>'domain'\<close> is unguarded and raises
  \<^verbatim>\<open>KeyError\<close> before anything is stored; the three later heuristics and the
  length heuristic test \<^verbatim>\<open>in self.dns_df.columns\<close> first. The two column
  assignments act on the stored batch.
\<close>

definition analyze_dns_logs :: "analyzer \<Rightarrow> (error + findings) \<times> analyzer" where
  "analyze_dns_logs s =
     (case dns_df s of
        None \<Rightarrow> (Inr [], s)
      | Some df0 \<Rightarrow>
          if nrows df0 = 0 then (Inr [], s)
          else
            (case get_col df0 ''domain'' of
               Inl e \<Rightarrow> (Inl e, s)
             | Inr domain \<Rightarrow>
                 let sc1 = AList.update ''Rare Domain Queries'' (length (rare_domains domain)) [];
                     tld = tld_column domain;
                     df1 = set_col df0 ''tld'' tld;
                     sc2 = AList.update ''Unusual TLD Queries''
                             (length (suspicious_tld_queries tld)) sc1;
                     sc3 = (case map_of (cols df1) ''response_code'' of
                              None \<Rightarrow> sc2
                            | Some response_code \<Rightarrow>
                                AList.update ''Failed DNS Responses''
                                  (length (failed_responses response_code)) sc2);
                     df2 = (case map_of (cols df1) ''domain'' of
                              None \<Rightarrow> df1
                            | Some domain2 \<Rightarrow> set_col df1 ''domain_length'' (domain_length_column domain2));
                     sc4 = (case map_of (cols df1) ''domain'' of
                              None \<Rightarrow> sc3
                            | Some domain2 \<Rightarrow>
                                AList.update ''Long Domain Names (>30 chars)''
                                  (length (long_domains (domain_length_column domain2))) sc3);
                     sc5 = (case map_of (cols df2) ''query_type'' of
                              None \<Rightarrow> sc4
                            | Some query_type \<Rightarrow>
                                AList.update ''Unusual Query Types''
                                  (length (unusual_queries query_type)) sc4);
                     sc6 = (case map_of (cols df2) ''client_ip'' of
                              None \<Rightarrow> sc5
                            | Some client_ip \<Rightarrow>
                                AList.update ''High Query Frequency IPs''
                                  (length (high_frequency_ips (value_counts client_ip))) sc5)
                 in (Inr sc6,
                     s\<lparr>dns_df := Some df2,
                       self_suspicious_events :=
                         AList.update ''DNS'' sc6 (self_suspicious_events s)\<rparr>)))"

section \<open>Loading DNS data\<close>

text \<open>
  \<^verbatim>\<open>np.random.choice(a, size, p)\<close> validates \<open>p\<close> before it samples: the sizes must
  agree, no entry may be negative, and the entries must sum to 1 within
  \<open>sqrt (finfo float64 eps) = 2\<^sup>-\<^sup>2\<^sup>6\<close>; otherwise it raises \<^verbatim>\<open>ValueError\<close>.
  After \<^verbatim>\<open>np.random.seed(42)\<close> the generator is a fixed sequence; \<open>draw k\<close> stands for
  its \<open>k\<close>-th value, and how the library turns raw values into samples is left
  open (here: an index into the population).
\<close>

definition atol :: real where
  "atol = 1 / 2 ^ 26"

definition choice_check :: "nat \<Rightarrow> real list \<Rightarrow> error option" where
  "choice_check pop_size p =
     (if length p \<noteq> pop_size then Some (ValueError ''a and p must have same size'')
      else if list_ex (\<lambda>x. x < 0) p then Some (ValueError ''probabilities are not non-negative'')
      else if \<bar>sum_list p - 1\<bar> > atol then Some (ValueError ''probabilities do not sum to 1'')
      else None)"

definition np_random_choice ::
  "(nat \<Rightarrow> nat) \<Rightarrow> nat \<Rightarrow> 'a list \<Rightarrow> nat \<Rightarrow> real list option \<Rightarrow> error + 'a list" where
  "np_random_choice draw k a n p =
     (case (case p of None \<Rightarrow> None | Some q \<Rightarrow> choice_check (length a) q) of
        Some e \<Rightarrow> Inl e
      | None \<Rightarrow> Inr (map (\<lambda>j. a ! (draw (k + j) mod length a)) [0..<n]))"

definition np_random_randint :: "(nat \<Rightarrow> nat) \<Rightarrow> nat \<Rightarrow> nat \<Rightarrow> nat \<Rightarrow> nat" where
  "np_random_randint draw k low high = low + draw k mod (high - low)"

definition normal_domains :: "string list" where
  "normal_domains = [''google.com'', ''microsoft.com'', ''amazon.com'', ''facebook.com'',
                     ''twitter.com'', ''github.com'', ''stackoverflow.com'', ''bing.com'']"

definition suspicious_domains :: "string list" where
  "suspicious_domains =
     [''malware-domain.xyz'', ''c2-server.top'', ''phishing-site.work'',
      ''dga-generated.bid'', ''suspicious-payload.trade'', ''unknown-malware.date'',
      ''rare-domain.win'', ''strange-pattern.cc'', ''potential-c2.net'',
      ''data-exfil.info'', ''encrypted-channel.org'', ''suspicious-activity.ru'']"

text \<open>The probability vector handed to the first \<^verbatim>\<open>np.random.choice\<close>.\<close>

definition domain_probabilities :: "real list" where
  "domain_probabilities =
     replicate (length suspicious_domains) (3 / 100) @
     replicate (length normal_domains) ((7 / 10) / real (length normal_domains))"

definition internal_ip :: "(nat \<Rightarrow> nat) \<Rightarrow> nat \<Rightarrow> string" where
  "internal_ip draw k =
     ''192.168.'' @ str_nat (np_random_randint draw k 1 255) @ ''.'' @
     str_nat (np_random_randint draw (k + 1) 1 255)"

definition external_ip :: "(nat \<Rightarrow> nat) \<Rightarrow> nat \<Rightarrow> string" where
  "external_ip draw k =
     str_nat (np_random_randint draw k 1 255) @ ''.'' @
     str_nat (np_random_randint draw (k + 1) 1 255) @ ''.'' @
     str_nat (np_random_randint draw (k + 2) 1 255) @ ''.'' @
     str_nat (np_random_randint draw (k + 3) 1 255)"

text \<open>
  \<^verbatim>\<open>_create_sample_dns_data\<close>. Timestamps are seconds since the epoch, from
  2016-08-28 00:00:00 in steps of 30.
\<close>

definition create_sample_dns_data :: "(nat \<Rightarrow> nat) \<Rightarrow> analyzer \<Rightarrow> (error + unit) \<times> analyzer" where
  "create_sample_dns_data draw s =
     (let n_records = 500 :: nat
      in case np_random_choice draw 0 (suspicious_domains @ normal_domains) n_records
                (Some domain_probabilities) of
           Inl e \<Rightarrow> (Inl e, s)
         | Inr domains \<Rightarrow>
             let ips0 = map (\<lambda>j. internal_ip draw (n_records + 2 * j)) [0..<n_records];
                 client_ips = fold (\<lambda>i ips. ips[i := external_ip draw (3 * n_records + 4 * i)])
                                [0..<10] ips0
             in case np_random_choice draw (3 * n_records + 40)
                       [''A'', ''AAAA'', ''MX'', ''TXT'', ''CNAME'', ''ANY''] n_records None of
                  Inl e \<Rightarrow> (Inl e, s)
                | Inr query_type \<Rightarrow>
                    (case np_random_choice draw (4 * n_records + 40) [0, 1, 2, 3, 5 :: int] n_records
                            (Some [9 / 10, 2 / 100, 2 / 100, 3 / 100, 3 / 100]) of
                       Inl e \<Rightarrow> (Inl e, s)
                     | Inr response_code \<Rightarrow>
                         (Inr (),
                          s\<lparr>dns_df := Some
                              \<lparr>nrows = n_records,
                               cols =
                                 [(''timestamp'', map (\<lambda>j. IntV (1472342400 + 30 * int j)) [0..<n_records]),
                                  (''domain'', map StrV domains),
                                  (''client_ip'', map StrV client_ips),
                                  (''query_type'', map StrV query_type),
                                  (''response_code'', map IntV response_code),
                                  (''response_size'',
                                   map (\<lambda>j. IntV (int (np_random_randint draw (5 * n_records + 40 + j) 50 1500)))
                                     [0..<n_records])]\<rparr>\<rparr>)))"

text \<open>
  The file system as \<^verbatim>\<open>load_dns_data\<close> sees it: whether a path exists, and what reading
  it as JSON or as CSV into a DataFrame gives (\<open>Inl\<close>: the exception raised).
\<close>

record filesystem =
  path_exists :: "string \<Rightarrow> bool"
  read_json :: "string \<Rightarrow> error + dataframe"
  read_csv :: "string \<Rightarrow> error + dataframe"

definition endswith :: "string \<Rightarrow> string \<Rightarrow> bool" where
  "endswith s suffix =
     (length suffix \<le> length s \<and> drop (length s - length suffix) s = suffix)"

text \<open>The body of the \<^verbatim>\<open>try\<close> block of \<^verbatim>\<open>load_dns_data\<close>.\<close>

definition load_dns_try ::
  "filesystem \<Rightarrow> (nat \<Rightarrow> nat) \<Rightarrow> string \<Rightarrow> analyzer \<Rightarrow> (error + unit) \<times> analyzer" where
  "load_dns_try fs draw dns_file_path s =
     (if \<not> path_exists fs dns_file_path then create_sample_dns_data draw s
      else if endswith dns_file_path ''.json'' then
        (case read_json fs dns_file_path of
           Inl e \<Rightarrow> (Inl e, s)
         | Inr df \<Rightarrow> (Inr (), s\<lparr>dns_df := Some df\<rparr>))
      else if endswith dns_file_path ''.csv'' then
        (case read_csv fs dns_file_path of
           Inl e \<Rightarrow> (Inl e, s)
         | Inr df \<Rightarrow> (Inr (), s\<lparr>dns_df := Some df\<rparr>))
      else create_sample_dns_data draw s)"

text \<open>
  \<^verbatim>\<open>load_dns_data\<close>: \<^verbatim>\<open>except Exception\<close> catches whatever the block raised and
  calls the generator again; what that call raises leaves the function.
\<close>

definition load_dns_data ::
  "filesystem \<Rightarrow> (nat \<Rightarrow> nat) \<Rightarrow> string \<Rightarrow> analyzer \<Rightarrow> (error + unit) \<times> analyzer" where
  "load_dns_data fs draw dns_file_path s =
     (case load_dns_try fs draw dns_file_path s of
        (Inr u, s') \<Rightarrow> (Inr u, s')
      | (Inl e, s') \<Rightarrow> create_sample_dns_data draw s')"

section \<open>The properties in the words of the specification\<close>

text \<open>
  A DNS batch that \<^verbatim>\<open>analyze_dns_logs\<close> works through: stored, with at least one row
  and a \<^verbatim>\<open>domain\<close> column.
\<close>

definition dns_ready :: "analyzer \<Rightarrow> dataframe \<Rightarrow> cell list \<Rightarrow> bool" where
  "dns_ready s df domain =
     (dns_df s = Some df \<and> nrows df \<noteq> 0 \<and> map_of (cols df) ''domain'' = Some domain)"

text \<open>The label after the final dot of a string, and the TLD as the specification words it.\<close>

definition after_final_dot :: "string \<Rightarrow> string" where
  "after_final_dot s = rev (takeWhile (\<lambda>c. c \<noteq> CHR ''.'') (rev s))"

definition spec_tld :: "cell \<Rightarrow> string" where
  "spec_tld d =
     (if isna d \<or> CHR ''.'' \<notin> set (py_str d) then []
      else CHR ''.'' # after_final_dot (py_str d))"

text \<open>
  The per-IP frequency distribution: one frequency for each distinct client IP. Its mean,
  and its standard deviation with divisor \<open>n - ddof\<close>: the population standard
  deviation has \<open>ddof = 0\<close>, the sample standard deviation \<open>ddof = 1\<close>.
\<close>

definition distinct_ips :: "cell list \<Rightarrow> cell set" where
  "distinct_ips client_ip = {ip \<in> set client_ip. \<not> isna ip}"

definition ip_freq :: "cell list \<Rightarrow> cell \<Rightarrow> real" where
  "ip_freq client_ip ip = real (count_list client_ip ip)"

definition freq_mean :: "cell list \<Rightarrow> real" where
  "freq_mean client_ip =
     (\<Sum>ip \<in> distinct_ips client_ip. ip_freq client_ip ip) / real (card (distinct_ips client_ip))"

definition freq_sd :: "nat \<Rightarrow> cell list \<Rightarrow> real" where
  "freq_sd ddof client_ip =
     sqrt ((\<Sum>ip \<in> distinct_ips client_ip. (ip_freq client_ip ip - freq_mean client_ip)\<^sup>2)
           / real (card (distinct_ips client_ip) - ddof))"

definition population_sd :: "cell list \<Rightarrow> real" where
  "population_sd = freq_sd 0"

definition sample_sd :: "cell list \<Rightarrow> real" where
  "sample_sd = freq_sd 1"

text \<open>
  The count \<^verbatim>\<open>analyze_dns_logs\<close> returns under a label: \<open>None\<close> when it raises or
  emits no entry for the label.
\<close>

definition dns_count :: "analyzer \<Rightarrow> string \<Rightarrow> nat option" where
  "dns_count s label =
     (case fst (analyze_dns_logs s) of Inl e \<Rightarrow> None | Inr out \<Rightarrow> map_of out label)"

text \<open>
  The number of distinct client IPs whose frequency strictly exceeds the mean plus two
  standard deviations, for either divisor.
\<close>

definition exceeding_ips :: "nat \<Rightarrow> cell list \<Rightarrow> cell set" where
  "exceeding_ips ddof client_ip =
     {ip \<in> distinct_ips client_ip.
        ip_freq client_ip ip > freq_mean client_ip + 2 * freq_sd ddof client_ip}"

section \<open>Example batches\<close>

text \<open>
  Ten DNS records from six clients, with frequencies 4, 2, 1, 1, 1, 1: mean 5/3, population
  variance 11/9, sample variance 22/15.
\<close>

definition example_ips :: "cell list" where
  "example_ips =
     [StrV ''10.0.0.1'', StrV ''10.0.0.1'', StrV ''10.0.0.1'', StrV ''10.0.0.1'',
      StrV ''10.0.0.2'', StrV ''10.0.0.2'', StrV ''10.0.0.3'', StrV ''10.0.0.4'',
      StrV ''10.0.0.5'', StrV ''10.0.0.6'']"

definition example_domains :: "cell list" where
  "example_domains =
     [StrV ''x.xyz'', StrV ''x.xyz'', StrV ''a.com'', StrV ''b.com'', StrV ''a'',
      NaN, StrV ''mail.a.com'', StrV ''a.com'', StrV ''a.com'', IntV 7]"

definition example_batch :: dataframe where
  "example_batch =
     \<lparr>nrows = 10, cols = [(''domain'', example_domains), (''client_ip'', example_ips)]\<rparr>"

definition example_state :: analyzer where
  "example_state = \<lparr>winevent_df = None, dns_df = Some example_batch, self_suspicious_events = []\<rparr>"

text \<open>Three records of a single client.\<close>

definition single_ip_batch :: dataframe where
  "single_ip_batch =
     \<lparr>nrows = 3,
      cols = [(''domain'', [StrV ''a.com'', StrV ''b.com'', StrV ''a.com'']),
              (''client_ip'', [StrV ''10.0.0.9'', StrV ''10.0.0.9'', StrV ''10.0.0.9''])]\<rparr>"

definition single_ip_state :: analyzer where
  "single_ip_state =
     \<lparr>winevent_df = None, dns_df = Some single_ip_batch, self_suspicious_events = []\<rparr>"

text \<open>A batch that already has a \<^verbatim>\<open>tld\<close> column, and an empty batch with a \<^verbatim>\<open>domain\<close> column.\<close>

definition tld_batch :: dataframe where
  "tld_batch = \<lparr>nrows = 1, cols = [(''domain'', [StrV ''a.xyz'']), (''tld'', [StrV ''old''])]\<rparr>"

definition tld_state :: analyzer where
  "tld_state = \<lparr>winevent_df = None, dns_df = Some tld_batch, self_suspicious_events = []\<rparr>"

definition empty_batch :: dataframe where
  "empty_batch = \<lparr>nrows = 0, cols = [(''domain'', [])]\<rparr>"

definition empty_state :: analyzer where
  "empty_state = \<lparr>winevent_df = None, dns_df = Some empty_batch, self_suspicious_events = []\<rparr>"

section \<open>Counting values\<close>

lemma sum_snd_insort_key:
  "sum_list (map snd (insort_key f x xs)) = snd x + sum_list (map snd xs)"
  for x :: "'a \<times> nat"
  by (induction xs) simp_all

lemma sum_snd_sort_key:
  "sum_list (map snd (sort_key f xs)) = sum_list (map snd xs)"
  for xs :: "('a \<times> nat) list"
  by (induction xs) (simp_all add: sum_snd_insort_key)

lemma set_unique [simp]: "set (unique xs) = set xs"
  by (simp add: unique_def)

lemma distinct_unique [simp]: "distinct (unique xs)"
  by (simp add: unique_def)

lemma distinct_keys_value_counts: "distinct (map fst (value_counts xs))"
proof -
  have "distinct (map fst (sort_key f (map (\<lambda>v. (v, g v)) ys)))" if "distinct ys"
    for f :: "cell \<times> nat \<Rightarrow> int" and g ys
    using that by (simp add: distinct_map inj_on_def)
  then show ?thesis by (simp add: value_counts_def Let_def)
qed

lemma map_of_tabulate:
  "map_of (map (\<lambda>v. (v, g v)) ys) v = (if v \<in> set ys then Some (g v) else None)"
  by (induction ys) simp_all

lemma map_of_value_counts:
  "map_of (value_counts xs) v =
     (if v \<in> set xs \<and> \<not> isna v then Some (count_list (filter (\<lambda>c. \<not> isna c) xs) v) else None)"
proof -
  let ?ys = "filter (\<lambda>c. \<not> isna c) xs"
  let ?tab = "map (\<lambda>v. (v, count_list ?ys v)) (unique ?ys)"
  have d: "distinct (map fst ?tab)" by (simp add: comp_def)
  have "map_of (sort_key (\<lambda>p. - int (snd p)) ?tab) = map_of ?tab"
    by (rule map_of_inject_set [THEN iffD2]) (simp_all add: d distinct_map inj_on_def)
  then show ?thesis
    by (simp add: value_counts_def Let_def map_of_tabulate)
qed

lemma sum_value_counts:
  "sum_list (map snd (value_counts xs)) =
     sum_list (map (count_list (filter (\<lambda>c. \<not> isna c) xs)) (unique (filter (\<lambda>c. \<not> isna c) xs)))"
  by (simp add: value_counts_def Let_def sum_snd_sort_key comp_def)

lemma keys_value_counts: "fst ` set (value_counts xs) = {v \<in> set xs. \<not> isna v}"
  by (auto simp: value_counts_def Let_def image_iff)

section \<open>WinEvent analysis: result and risk tiers\<close>

lemma update_fresh: "k \<notin> fst ` set al \<Longrightarrow> AList.update k v al = al @ [(k, v)]"
  by (induction al) auto

lemma event_names_distinct:
  "distinct (map (\<lambda>q. event_name (fst q) (snd q)) catalog_cells)"
  by (simp add: catalog_cells_def suspicious_events_def event_name_def str_int_def str_nat.simps)

lemma catalog_lookup_cells: "catalog_lookup c = Some info \<Longrightarrow> (c, info) \<in> set catalog_cells"
  by (cases c) (force simp: catalog_cells_def image_iff dest: map_of_SomeD)+

lemma event_name_inj:
  assumes "catalog_lookup a = Some ia" "catalog_lookup b = Some ib"
    and "event_name a ia = event_name b ib"
  shows "a = b"
proof -
  have "(a, ia) \<in> set catalog_cells" "(b, ib) \<in> set catalog_cells"
    using assms(1,2) by (auto dest: catalog_lookup_cells)
  moreover have "inj_on (\<lambda>q. event_name (fst q) (snd q)) (set catalog_cells)"
    using event_names_distinct by (simp add: distinct_map)
  ultimately have "(a, ia) = (b, ib)"
    using assms(3) by (intro inj_onD [where f = "\<lambda>q. event_name (fst q) (snd q)"]) simp_all
  then show ?thesis by simp
qed

lemma sum_build_result:
  "distinct (map fst cs) \<Longrightarrow> list_all (\<lambda>p. in_catalog (fst p)) cs \<Longrightarrow>
   (\<forall>p \<in> set cs. \<forall>k \<in> fst ` set acc. label_of (fst p) \<noteq> Some k) \<Longrightarrow>
   sum_list (map snd (build_result cs acc)) = sum_list (map snd acc) + sum_list (map snd cs)"
proof (induction cs arbitrary: acc)
  case Nil
  then show ?case by simp
next
  case (Cons x rest)
  obtain event_id count where x: "x = (event_id, count)" by (cases x)
  from Cons.prems(2) x obtain info where info: "catalog_lookup event_id = Some info"
    by (auto simp: in_catalog_def)
  let ?k = "event_name event_id info"
  have fresh: "?k \<notin> fst ` set acc"
    using Cons.prems(3) info x by (force simp: label_of_def)
  have upd: "AList.update ?k count acc = acc @ [(?k, count)]"
    using fresh by (rule update_fresh)
  have rest_fresh: "\<forall>p \<in> set rest. \<forall>k \<in> fst ` set (AList.update ?k count acc). label_of (fst p) \<noteq> Some k"
  proof (intro ballI)
    fix p k assume p: "p \<in> set rest" and k: "k \<in> fst ` set (AList.update ?k count acc)"
    show "label_of (fst p) \<noteq> Some k"
    proof (cases "k = ?k")
      case True
      show ?thesis
      proof
        assume "label_of (fst p) = Some k"
        then obtain b where b: "catalog_lookup (fst p) = Some b" "event_name (fst p) b = ?k"
          using True by (auto simp: label_of_def)
        then have "fst p = event_id" using info by (auto dest: event_name_inj)
        then have "event_id \<in> fst ` set rest" using p by force
        then show False using Cons.prems(1) x by simp
      qed
    next
      case False
      then have "k \<in> fst ` set acc" using k by (simp add: dom_update)
      then show ?thesis using Cons.prems(3) p by auto
    qed
  qed
  have "sum_list (map snd (build_result rest (AList.update ?k count acc))) =
        sum_list (map snd (AList.update ?k count acc)) + sum_list (map snd rest)"
    using Cons.IH [OF _ _ rest_fresh] Cons.prems(1,2) by simp
  then show ?case using info upd x by simp
qed

lemma sum_map_entry_risk:
  "map fst rl = [High, Medium, Low] \<Longrightarrow>
   sum_list (map snd (AList.map_entry r (\<lambda>v. v + c) rl)) = sum_list (map snd rl) + c"
  for rl :: "(risk \<times> nat) list"
  by (cases r) (auto simp: map_eq_Cons_conv)

lemma keys_map_entry: "map fst (AList.map_entry k f al) = map fst al"
  by (induction al) auto

lemma add_risk_levels_sum:
  "map fst rl = [High, Medium, Low] \<Longrightarrow>
   list_all (\<lambda>u. map_of counts u \<noteq> None) us \<Longrightarrow> list_all in_catalog us \<Longrightarrow>
   \<exists>rl'. add_risk_levels counts us rl = Inr rl' \<and> map fst rl' = [High, Medium, Low] \<and>
     sum_list (map snd rl') = sum_list (map snd rl) + sum_list (map (\<lambda>u. the (map_of counts u)) us)"
proof (induction us arbitrary: rl)
  case Nil
  then show ?case by simp
next
  case (Cons u us)
  from Cons.prems obtain info c where info: "catalog_lookup u = Some info" and c: "map_of counts u = Some c"
    by (auto simp: in_catalog_def)
  let ?rl = "AList.map_entry (risk info) (\<lambda>v. v + c) rl"
  have k: "map fst ?rl = [High, Medium, Low]" using Cons.prems(1) by (simp add: keys_map_entry)
  from Cons.IH [OF k] Cons.prems(2,3)
  obtain rl' where r: "add_risk_levels counts us ?rl = Inr rl'" "map fst rl' = [High, Medium, Low]"
    "sum_list (map snd rl') = sum_list (map snd ?rl) + sum_list (map (\<lambda>u. the (map_of counts u)) us)"
    by auto
  show ?case using r info c sum_map_entry_risk [OF Cons.prems(1)] by simp
qed

lemma in_catalog_not_na: "in_catalog c \<Longrightarrow> \<not> isna c"
  by (cases c) (simp_all add: in_catalog_def isna_def)

lemma filter_not_na_suspicious:
  "filter (\<lambda>c. \<not> isna c) (filter in_catalog xs) = filter in_catalog xs"
  by (induction xs) (auto dest: in_catalog_not_na)

lemma get_col_present:
  "c \<in> set (columns df) \<Longrightarrow> \<exists>v. get_col df c = Inr v"
  by (cases "map_of (cols df) c") (auto simp: get_col_def columns_def map_of_eq_None_iff)

lemma suspicious_sums:
  fixes ec :: "cell list"
  defines "sc \<equiv> filter in_catalog ec"
  shows "\<exists>rl. add_risk_levels (value_counts sc) (unique sc) [(High, 0), (Medium, 0), (Low, 0)] = Inr rl \<and>
           map fst rl = [High, Medium, Low] \<and>
           sum_list (map snd rl) = sum_list (map snd (build_result (value_counts sc) []))"
proof -
  have na: "filter (\<lambda>c. \<not> isna c) sc = sc"
    unfolding sc_def by (rule filter_not_na_suspicious)
  have cat: "list_all in_catalog (unique sc)"
    by (simp add: list_all_iff sc_def)
  have keys: "list_all (\<lambda>u. map_of (value_counts sc) u \<noteq> None) (unique sc)"
    using cat by (auto simp: list_all_iff map_of_value_counts dest: in_catalog_not_na)
  have the_count: "map (\<lambda>u. the (map_of (value_counts sc) u)) (unique sc) = map (count_list sc) (unique sc)"
    using cat by (auto simp: list_all_iff map_of_value_counts na dest: in_catalog_not_na)
  from add_risk_levels_sum [OF _ keys cat, of "[(High, 0), (Medium, 0), (Low, 0)]"]
  obtain rl where rl: "add_risk_levels (value_counts sc) (unique sc) [(High, 0), (Medium, 0), (Low, 0)] = Inr rl"
    "map fst rl = [High, Medium, Low]"
    "sum_list (map snd rl) = sum_list (map (count_list sc) (unique sc))"
    by (auto simp: the_count)
  have "list_all (\<lambda>p. in_catalog (fst p)) (value_counts sc)"
    using keys_value_counts [of sc] by (auto simp: list_all_iff sc_def)
  then have "sum_list (map snd (build_result (value_counts sc) [])) = sum_list (map snd (value_counts sc))"
    using sum_build_result [of "value_counts sc" "[]"] distinct_keys_value_counts [of sc] by simp
  also have "\<dots> = sum_list (map (count_list sc) (unique sc))"
    by (simp add: sum_value_counts na)
  finally show ?thesis using rl by auto
qed

text \<open>
  Claim C3. On every WinEvent batch the analysis works through (absent, empty, or carrying
  the \<^verbatim>\<open>EventCode\<close> and \<^verbatim>\<open>ComputerName\<close> columns it indexes), it ends without an
  error and the High, Medium and Low counts add up to the sum of the counts in the
  mapping it returns.
\<close>

theorem tier_total_eq_result_total:
  assumes "winevent_ready s"
  shows "\<exists>rep s'. analyze_winevent_logs s = (Inr rep, s') \<and>
           tier_total rep = sum_list (map snd (result rep))"
proof (cases "winevent_df s")
  case None
  then show ?thesis by (simp add: analyze_winevent_logs_def tier_total_def)
next
  case (Some df)
  show ?thesis
  proof (cases "nrows df = 0")
    case True
    then show ?thesis using Some by (simp add: analyze_winevent_logs_def tier_total_def)
  next
    case False
    with assms Some obtain ec cn where
      ec: "get_col df ''EventCode'' = Inr ec" and cn: "get_col df ''ComputerName'' = Inr cn"
      using get_col_present unfolding winevent_ready_def by fastforce
    from suspicious_sums [of ec]
    obtain rl where rl:
      "add_risk_levels (value_counts (filter in_catalog ec)) (unique (filter in_catalog ec))
         [(High, 0), (Medium, 0), (Low, 0)] = Inr rl"
      "sum_list (map snd rl) =
         sum_list (map snd (build_result (value_counts (filter in_catalog ec)) []))"
      by blast
    show ?thesis
      using Some False ec cn rl
      by (simp add: analyze_winevent_logs_def tier_total_def Let_def)
  qed
qed

theorem tier_total_eq_result_total_witness:
  "winevent_ready
     \<lparr>winevent_df = Some \<lparr>nrows = 4,
         cols = [(''EventCode'', [FloatV 4624, FloatV 4625, NaN, FloatV 4624]),
                 (''ComputerName'', [StrV ''a'', StrV ''b'', StrV ''a'', StrV ''c''])]\<rparr>,
      dns_df = None, self_suspicious_events = []\<rparr> \<and>
   (\<exists>rep s'. analyze_winevent_logs
     \<lparr>winevent_df = Some \<lparr>nrows = 4,
         cols = [(''EventCode'', [FloatV 4624, FloatV 4625, NaN, FloatV 4624]),
                 (''ComputerName'', [StrV ''a'', StrV ''b'', StrV ''a'', StrV ''c''])]\<rparr>,
      dns_df = None, self_suspicious_events = []\<rparr> = (Inr rep, s') \<and>
      tier_total rep = sum_list (map snd (result rep)))"
proof -
  have r: "winevent_ready
     \<lparr>winevent_df = Some \<lparr>nrows = 4,
         cols = [(''EventCode'', [FloatV 4624, FloatV 4625, NaN, FloatV 4624]),
                 (''ComputerName'', [StrV ''a'', StrV ''b'', StrV ''a'', StrV ''c''])]\<rparr>,
      dns_df = None, self_suspicious_events = []\<rparr>"
    by (simp add: winevent_ready_def columns_def)
  show ?thesis using r tier_total_eq_result_total [OF r] by simp
qed

text \<open>
  Claim C8. For a batch of three records with identifiers 4625, 4625 and 9999 (whatever the
  hosts and the other columns), the returned mapping is \<open>{"[4625] Failed Logon": 2}\<close>
  and the tiers are High 2, Medium 0, Low 0; the catalog has 21 entries and 9999 is not
  one of them.
\<close>

theorem scenario_4625_4625_9999:
  "fst (analyze_winevent_logs
     \<lparr>winevent_df = Some \<lparr>nrows = 3,
         cols = (''EventCode'', [IntV 4625, IntV 4625, IntV 9999]) # (''ComputerName'', hosts) # others\<rparr>,
      dns_df = d, self_suspicious_events = ev\<rparr>)
   = Inr \<lparr>result = [(''[4625] Failed Logon'', 2)], tiers = Some [(High, 2), (Medium, 0), (Low, 0)]\<rparr>
   \<and> length suspicious_events = 21 \<and> \<not> in_catalog (IntV 9999)"
  by (simp add: analyze_winevent_logs_def get_col_def value_counts_def unique_def in_catalog_def
      suspicious_events_def isna_def event_name_def str_int_def str_nat.simps Let_def)

section \<open>DNS analysis: a batch without a domain column\<close>

text \<open>
  Claim C1. A batch of two rows with the \<^verbatim>\<open>response_code\<close>, \<^verbatim>\<open>query_type\<close> and
  \<^verbatim>\<open>client_ip\<close> columns and no \<^verbatim>\<open>domain\<close> column: the analysis raises
  \<^verbatim>\<open>KeyError\<close> at its first indexing of \<^verbatim>\<open>'domain'\<close>, reports no count and leaves
  the state as it was.
\<close>

theorem missing_domain_column_raises:
  "analyze_dns_logs
     \<lparr>winevent_df = w,
      dns_df = Some \<lparr>nrows = 2,
         cols = [(''response_code'', [IntV 0, IntV 3]),
                 (''query_type'', [StrV ''A'', StrV ''TXT'']),
                 (''client_ip'', [StrV ''10.0.0.1'', StrV ''10.0.0.2''])]\<rparr>,
      self_suspicious_events = ev\<rparr>
   = (Inl (KeyError ''domain''),
      \<lparr>winevent_df = w,
      dns_df = Some \<lparr>nrows = 2,
         cols = [(''response_code'', [IntV 0, IntV 3]),
                 (''query_type'', [StrV ''A'', StrV ''TXT'']),
                 (''client_ip'', [StrV ''10.0.0.1'', StrV ''10.0.0.2''])]\<rparr>,
      self_suspicious_events = ev\<rparr>)"
  by (simp add: analyze_dns_logs_def get_col_def)

section \<open>The synthetic DNS data\<close>

lemma sum_domain_probabilities: "sum_list domain_probabilities = 106 / 100"
  by (simp add: domain_probabilities_def suspicious_domains_def normal_domains_def sum_list_replicate)

lemma create_sample_dns_data_raises:
  "create_sample_dns_data draw s = (Inl (ValueError ''probabilities do not sum to 1''), s)"
proof -
  have "choice_check (length (suspicious_domains @ normal_domains)) domain_probabilities
          = Some (ValueError ''probabilities do not sum to 1'')"
    by (simp add: choice_check_def sum_domain_probabilities atol_def)
       (simp add: domain_probabilities_def suspicious_domains_def normal_domains_def)
  then show ?thesis
    by (simp add: create_sample_dns_data_def np_random_choice_def)
qed

text \<open>
  Claim C2. The probabilities of the twelve suspicious and eight normal domains sum to
  1.06, so the generator raises \<^verbatim>\<open>ValueError\<close> at its first draw, whatever the random
  stream; for a path that does not exist \<^verbatim>\<open>load_dns_data\<close> calls it in the
  \<^verbatim>\<open>try\<close> block and again in the handler, and the second error leaves the function
  with no batch stored.
\<close>

theorem load_dns_data_missing_file_raises:
  "load_dns_data \<lparr>path_exists = (\<lambda>p. False), read_json = rj, read_csv = rc\<rparr> draw ''dns.json'' s
     = (Inl (ValueError ''probabilities do not sum to 1''), s)
   \<and> create_sample_dns_data draw s = (Inl (ValueError ''probabilities do not sum to 1''), s)"
  by (simp add: load_dns_data_def load_dns_try_def create_sample_dns_data_raises)

section \<open>DNS analysis: what a run computes\<close>

lemma map_of_set_col:
  "map_of (cols (set_col df c v)) k = (if k = c then Some v else map_of (cols df) k)"
  by (simp add: set_col_def update_conv')

lemma nrows_set_col [simp]: "nrows (set_col df c v) = nrows df"
  by (simp add: set_col_def)

lemma analyze_dns_logs_ready:
  assumes "dns_ready s df domain"
  shows "\<exists>out df'. analyze_dns_logs s =
            (Inr out, s\<lparr>dns_df := Some df',
                       self_suspicious_events := AList.update ''DNS'' out (self_suspicious_events s)\<rparr>) \<and>
          df' = set_col (set_col df ''tld'' (tld_column domain)) ''domain_length'' (domain_length_column domain) \<and>
          map_of out ''Rare Domain Queries'' = Some (length (rare_domains domain)) \<and>
          map_of out ''Unusual TLD Queries'' = Some (length (suspicious_tld_queries (tld_column domain))) \<and>
          map_of out ''High Query Frequency IPs'' =
            map_option (\<lambda>ip. length (high_frequency_ips (value_counts ip))) (map_of (cols df) ''client_ip'')"
  using assms
  by (simp add: dns_ready_def analyze_dns_logs_def get_col_def Let_def map_of_set_col update_conv'
      split: option.splits)

lemma length_filter_insort_key:
  "length (filter P (insort_key f x xs)) = length (filter P (x # xs))"
  by (induction xs) simp_all

lemma length_filter_sort_key:
  "length (filter P (sort_key f xs)) = length (filter P xs)"
  by (induction xs) (simp_all add: length_filter_insort_key)

lemma count_list_filter:
  "count_list (filter P xs) v = (if P v then count_list xs v else 0)"
  by (induction xs) auto

lemma distinct_ips_filter: "set (filter (\<lambda>c. \<not> isna c) xs) = distinct_ips xs"
  by (auto simp: distinct_ips_def)

lemma finite_distinct_ips [simp]: "finite (distinct_ips xs)"
  by (simp add: distinct_ips_def)

lemma length_filter_value_counts:
  "length (filter (\<lambda>p. Q (snd p)) (value_counts xs)) =
     card {v \<in> distinct_ips xs. Q (count_list xs v)}"
proof -
  let ?ys = "filter (\<lambda>c. \<not> isna c) xs"
  have "length (filter (\<lambda>p. Q (snd p)) (value_counts xs)) =
        length (filter (\<lambda>v. Q (count_list ?ys v)) (unique ?ys))"
    by (simp add: value_counts_def Let_def length_filter_sort_key filter_map comp_def)
  also have "\<dots> = card {v \<in> set (unique ?ys). Q (count_list ?ys v)}"
    by (simp add: distinct_length_filter Int_def conj_commute)
  also have "{v \<in> set (unique ?ys). Q (count_list ?ys v)} = {v \<in> distinct_ips xs. Q (count_list xs v)}"
    by (auto simp: distinct_ips_def count_list_filter)
  finally show ?thesis .
qed

lemma length_value_counts: "length (value_counts xs) = card (distinct_ips xs)"
  using length_filter_value_counts [of "\<lambda>n. True" xs] by simp

lemma sum_list_insort_key:
  "sum_list (map g (insort_key f x xs)) = g x + sum_list (map g xs)"
  for g :: "'a \<Rightarrow> real"
  by (induction xs) simp_all

lemma sum_list_sort_key:
  "sum_list (map g (sort_key f xs)) = sum_list (map g xs)"
  for g :: "'a \<Rightarrow> real"
  by (induction xs) (simp_all add: sum_list_insort_key)

lemma sum_value_counts_real:
  "(\<Sum>p\<leftarrow>value_counts xs. g (snd p)) = (\<Sum>v \<in> distinct_ips xs. g (count_list xs v))"
  for g :: "nat \<Rightarrow> real"
proof -
  let ?ys = "filter (\<lambda>c. \<not> isna c) xs"
  have "(\<Sum>p\<leftarrow>value_counts xs. g (snd p)) = (\<Sum>v\<leftarrow>unique ?ys. g (count_list ?ys v))"
    by (simp add: value_counts_def Let_def sum_list_sort_key comp_def)
  also have "\<dots> = (\<Sum>v \<in> set (unique ?ys). g (count_list ?ys v))"
    by (simp add: sum_list_distinct_conv_sum_set)
  also have "\<dots> = (\<Sum>v \<in> distinct_ips xs. g (count_list xs v))"
    by (rule sum.cong) (auto simp: distinct_ips_def count_list_filter)
  finally show ?thesis .
qed

lemma real_sum_list: "real (sum_list ns) = (\<Sum>n\<leftarrow>ns. real n)"
  by (induction ns) simp_all

lemma series_mean_value_counts:
  "distinct_ips xs \<noteq> {} \<Longrightarrow> series_mean (map snd (value_counts xs)) = Some (freq_mean xs)"
proof -
  assume ne: "distinct_ips xs \<noteq> {}"
  then have "card (distinct_ips xs) \<noteq> 0" by simp
  then have "value_counts xs \<noteq> []"
    using length_value_counts [of xs] by auto
  moreover have "real (sum_list (map snd (value_counts xs))) = (\<Sum>p\<leftarrow>value_counts xs. real (snd p))"
    by (simp add: real_sum_list comp_def)
  ultimately show ?thesis
    using sum_value_counts_real [of real xs]
    by (simp add: series_mean_def freq_mean_def ip_freq_def length_value_counts)
qed

lemma series_std_value_counts:
  assumes "2 \<le> card (distinct_ips xs)"
  shows "series_std (map snd (value_counts xs)) = Some (sample_sd xs)"
proof -
  from assms have ne: "distinct_ips xs \<noteq> {}" by auto
  have len: "\<not> length (value_counts xs) < 2"
    using assms by (simp add: length_value_counts)
  have "(\<Sum>x\<leftarrow>map snd (value_counts xs). (real x - freq_mean xs)\<^sup>2) =
        (\<Sum>p\<leftarrow>value_counts xs. (real (snd p) - freq_mean xs)\<^sup>2)"
    by (simp add: comp_def)
  also have "\<dots> = (\<Sum>v \<in> distinct_ips xs. (real (count_list xs v) - freq_mean xs)\<^sup>2)"
    by (rule sum_value_counts_real)
  finally show ?thesis
    using len
    by (simp add: series_std_def series_mean_value_counts [OF ne] sample_sd_def freq_sd_def
        ip_freq_def length_value_counts)
qed

lemma ip_threshold_value_counts:
  "ip_threshold (value_counts xs) =
     (if card (distinct_ips xs) < 2 then None else Some (freq_mean xs + 2 * sample_sd xs))"
proof (cases "card (distinct_ips xs) < 2")
  case True
  then have "length (map snd (value_counts xs)) < 2"
    by (simp add: length_value_counts)
  then have "series_std (map snd (value_counts xs)) = None"
    by (simp add: series_std_def split: option.splits)
  then show ?thesis using True by (simp add: ip_threshold_def split: option.splits)
next
  case False
  then have c: "2 \<le> card (distinct_ips xs)" by simp
  then have ne: "distinct_ips xs \<noteq> {}" by auto
  show ?thesis
    using False
    by (simp add: ip_threshold_def series_std_value_counts [OF c] series_mean_value_counts [OF ne])
qed

lemma length_high_frequency_ips:
  "length (high_frequency_ips (value_counts xs)) =
     (if card (distinct_ips xs) < 2 then 0 else card (exceeding_ips 1 xs))"
  using length_filter_value_counts [of "\<lambda>n. real n > freq_mean xs + 2 * sample_sd xs" xs]
  by (simp add: high_frequency_ips_def ip_threshold_value_counts exceeding_ips_def ip_freq_def
      sample_sd_def)

lemma length_rare_domains:
  "length (rare_domains domain) = card {d \<in> set domain. \<not> isna d \<and> count_list domain d < 3}"
  using length_filter_value_counts [of "\<lambda>n. n < 3" domain]
  by (simp add: rare_domains_def distinct_ips_def)

lemma dns_count_ready:
  assumes "dns_ready s df domain"
  shows "dns_count s ''Rare Domain Queries'' = Some (length (rare_domains domain))"
    and "dns_count s ''Unusual TLD Queries'' = Some (length (suspicious_tld_queries (tld_column domain)))"
    and "dns_count s ''High Query Frequency IPs'' =
            map_option (\<lambda>ip. length (high_frequency_ips (value_counts ip))) (map_of (cols df) ''client_ip'')"
  using analyze_dns_logs_ready [OF assms] by (auto simp: dns_count_def)

section \<open>DNS analysis: the heuristics\<close>

text \<open>
  Claim C4. On every stored, non-empty DNS batch with a \<^verbatim>\<open>domain\<close> column the analysis
  succeeds and the count under "Rare Domain Queries" is the number of distinct
  (non-missing) domain values occurring fewer than 3 times in the column; it counts
  values, not records, so a domain occurring twice adds exactly 1.
\<close>

theorem rare_domain_queries_counts_distinct_domains:
  assumes "dns_ready s df domain"
  shows "dns_count s ''Rare Domain Queries'' =
           Some (card {d \<in> set domain. \<not> isna d \<and> count_list domain d < 3})"
  using dns_count_ready(1) [OF assms] by (simp add: length_rare_domains)

text \<open>
  Claim C6. When the \<^verbatim>\<open>client_ip\<close> column holds exactly one distinct client IP, the
  count under "High Query Frequency IPs" is 0: the standard deviation of a single
  frequency is undefined, so is the threshold, and no IP is flagged.
\<close>

theorem single_client_ip_flags_none:
  assumes "dns_ready s df domain" and "map_of (cols df) ''client_ip'' = Some client_ip"
    and "card (distinct_ips client_ip) = 1"
  shows "dns_count s ''High Query Frequency IPs'' = Some 0"
  using dns_count_ready(3) [OF assms(1)] assms(2,3) by (simp add: length_high_frequency_ips)

text \<open>
  Claim C5, amended. The threshold is the mean plus two times the sample standard
  deviation (divisor \<open>n - 1\<close>) of the per-IP frequencies, and the reported count is
  the number of distinct client IPs whose frequency strictly exceeds it; with fewer than
  two distinct IPs the threshold is undefined and the count is 0.
\<close>

theorem high_frequency_threshold_sample_sd:
  assumes "dns_ready s df domain" and "map_of (cols df) ''client_ip'' = Some client_ip"
  shows "ip_threshold (value_counts client_ip) =
           (if card (distinct_ips client_ip) < 2 then None
            else Some (freq_mean client_ip + 2 * sample_sd client_ip)) \<and>
         dns_count s ''High Query Frequency IPs'' =
           Some (if card (distinct_ips client_ip) < 2 then 0 else card (exceeding_ips 1 client_ip))"
  using dns_count_ready(3) [OF assms(1)] assms(2)
  by (simp add: length_high_frequency_ips ip_threshold_value_counts)

section \<open>Comparing with a mean plus two standard deviations\<close>

lemma gt_mean_2sd:
  fixes x m v :: real
  assumes "0 \<le> v"
  shows "(x > m + 2 * sqrt v) = (x > m \<and> (x - m)\<^sup>2 > 4 * v)"
proof -
  define y where "y = (x - m) / 2"
  have sq: "(x - m)\<^sup>2 = 4 * y\<^sup>2"
    unfolding y_def by (simp add: power_divide)
  have xm: "(m < x) = (0 < y)" unfolding y_def by simp
  have lhs: "(x > m + 2 * sqrt v) = (sqrt v < y)" unfolding y_def by auto
  have "(sqrt v < y) = (0 < y \<and> v < y\<^sup>2)"
  proof
    assume h: "sqrt v < y"
    have "0 \<le> sqrt v" using assms by simp
    with h have pos: "0 < y" by linarith
    then have "sqrt (y\<^sup>2) = y" by simp
    with h have "sqrt v < sqrt (y\<^sup>2)" by simp
    then have "v < y\<^sup>2" by (simp only: real_sqrt_less_iff)
    with pos show "0 < y \<and> v < y\<^sup>2" by simp
  next
    assume h: "0 < y \<and> v < y\<^sup>2"
    then have "sqrt v < sqrt (y\<^sup>2)" by (simp only: real_sqrt_less_iff)
    moreover have "sqrt (y\<^sup>2) = y" using h by simp
    ultimately show "sqrt v < y" by simp
  qed
  then show ?thesis unfolding lhs xm sq by simp
qed

text \<open>The example batch of ten records, evaluated.\<close>

lemma example_value_counts: "value_counts example_ips = [(StrV ''10.0.0.1'', 4), (StrV ''10.0.0.2'', 2), (StrV ''10.0.0.3'', 1),
   (StrV ''10.0.0.4'', 1), (StrV ''10.0.0.5'', 1), (StrV ''10.0.0.6'', 1)]"
  by (simp add: example_ips_def value_counts_def unique_def isna_def)

lemma example_high_frequency_ips: "high_frequency_ips (value_counts example_ips) = []"
  by (simp add: example_value_counts high_frequency_ips_def ip_threshold_def series_mean_def series_std_def
      gt_mean_2sd power2_eq_square)

lemma example_distinct_ips: "distinct_ips example_ips = {StrV ''10.0.0.1'', StrV ''10.0.0.2'', StrV ''10.0.0.3'',
   StrV ''10.0.0.4'', StrV ''10.0.0.5'', StrV ''10.0.0.6''}"
  by (auto simp: distinct_ips_def example_ips_def isna_def)

lemma example_freq_mean: "freq_mean example_ips = 5 / 3"
  by (simp add: freq_mean_def example_distinct_ips ip_freq_def) (simp add: example_ips_def)

lemma example_population_sd: "freq_sd 0 example_ips = sqrt (11 / 9)"
  by (simp add: freq_sd_def example_freq_mean example_distinct_ips ip_freq_def) (simp add: example_ips_def power2_eq_square)

lemma example_exceeds_population: "StrV ''10.0.0.1'' \<in> exceeding_ips 0 example_ips"
  by (simp add: exceeding_ips_def example_population_sd example_freq_mean gt_mean_2sd example_distinct_ips ip_freq_def)
     (simp add: example_ips_def power2_eq_square)

section \<open>The heuristics on the example batches\<close>

lemma ready_example: "dns_ready example_state example_batch example_domains"
  by (simp add: dns_ready_def example_state_def example_batch_def)

lemma ready_single: "dns_ready single_ip_state single_ip_batch [StrV ''a.com'', StrV ''b.com'', StrV ''a.com'']"
  by (simp add: dns_ready_def single_ip_state_def single_ip_batch_def)

lemma finite_exceeding_ips: "finite (exceeding_ips ddof xs)"
  by (simp add: exceeding_ips_def)

text \<open>
  Claim C5 as stated fails on the example batch: the client with 4 of the 10 records
  exceeds the mean plus two population standard deviations (5/3 + 2 sqrt (11/9) < 4), so
  the stated count is at least 1, while the analysis reports 0
  (4 < 5/3 + 2 sqrt (22/15)).
\<close>

theorem population_sd_threshold_counterexample:
  "dns_count example_state ''High Query Frequency IPs'' = Some 0 \<and>
   dns_count example_state ''High Query Frequency IPs'' \<noteq> Some (card (exceeding_ips 0 example_ips))"
proof -
  have c: "dns_count example_state ''High Query Frequency IPs'' = Some 0"
    using dns_count_ready(3) [OF ready_example] by (simp add: example_batch_def example_high_frequency_ips)
  have "card (exceeding_ips 0 example_ips) \<noteq> 0"
    using example_exceeds_population finite_exceeding_ips [of 0 example_ips] by auto
  with c show ?thesis by simp
qed

theorem rare_domain_queries_counts_distinct_domains_witness:
  "dns_ready example_state example_batch example_domains \<and>
   dns_count example_state ''Rare Domain Queries'' =
     Some (card {d \<in> set example_domains. \<not> isna d \<and> count_list example_domains d < 3})"
  using ready_example rare_domain_queries_counts_distinct_domains [OF ready_example] by simp

theorem single_client_ip_flags_none_witness:
  "dns_ready single_ip_state single_ip_batch [StrV ''a.com'', StrV ''b.com'', StrV ''a.com''] \<and>
   map_of (cols single_ip_batch) ''client_ip'' = Some [StrV ''10.0.0.9'', StrV ''10.0.0.9'', StrV ''10.0.0.9''] \<and>
   card (distinct_ips [StrV ''10.0.0.9'', StrV ''10.0.0.9'', StrV ''10.0.0.9'']) = 1 \<and>
   dns_count single_ip_state ''High Query Frequency IPs'' = Some 0"
proof -
  have m: "map_of (cols single_ip_batch) ''client_ip'' = Some [StrV ''10.0.0.9'', StrV ''10.0.0.9'', StrV ''10.0.0.9'']"
    by (simp add: single_ip_batch_def)
  have c: "card (distinct_ips [StrV ''10.0.0.9'', StrV ''10.0.0.9'', StrV ''10.0.0.9'']) = 1"
  proof -
    have "distinct_ips [StrV ''10.0.0.9'', StrV ''10.0.0.9'', StrV ''10.0.0.9''] = {StrV ''10.0.0.9''}"
      by (auto simp: distinct_ips_def isna_def)
    then show ?thesis by simp
  qed
  show ?thesis
    using ready_single m c single_client_ip_flags_none [OF ready_single m c] by simp
qed

theorem high_frequency_threshold_sample_sd_witness:
  "dns_ready example_state example_batch example_domains \<and>
   map_of (cols example_batch) ''client_ip'' = Some example_ips \<and>
   ip_threshold (value_counts example_ips) =
           (if card (distinct_ips example_ips) < 2 then None
            else Some (freq_mean example_ips + 2 * sample_sd example_ips)) \<and>
   dns_count example_state ''High Query Frequency IPs'' =
           Some (if card (distinct_ips example_ips) < 2 then 0 else card (exceeding_ips 1 example_ips))"
proof -
  have m: "map_of (cols example_batch) ''client_ip'' = Some example_ips"
    by (simp add: example_batch_def)
  show ?thesis
    using ready_example m high_frequency_threshold_sample_sd [OF ready_example m] by simp
qed

section \<open>DNS analysis: effect on the state\<close>

lemma idem_ready:
  "dns_ready s df domain \<Longrightarrow>
   fst (analyze_dns_logs (snd (analyze_dns_logs s))) = fst (analyze_dns_logs s)"
  by (simp add: dns_ready_def analyze_dns_logs_def get_col_def Let_def map_of_set_col
      split: option.splits)

lemma analyze_dns_logs_not_ready:
  "\<not> (\<exists>df domain. dns_ready s df domain) \<Longrightarrow> snd (analyze_dns_logs s) = s"
  by (auto simp: dns_ready_def analyze_dns_logs_def get_col_def split: option.splits)

text \<open>
  Claim C9. Running the analysis again on the state the first run leaves returns the same
  outcome: the same labels with the same counts in the same order, or the same error.
\<close>

theorem analyze_dns_logs_idempotent:
  "fst (analyze_dns_logs (snd (analyze_dns_logs s))) = fst (analyze_dns_logs s)"
proof (cases "\<exists>df domain. dns_ready s df domain")
  case True
  then show ?thesis by (auto intro: idem_ready)
next
  case False
  then show ?thesis by (simp add: analyze_dns_logs_not_ready)
qed

text \<open>
  Claim C10, amended. On a stored, non-empty DNS batch with a \<^verbatim>\<open>domain\<close> column the
  analysis sets the \<^verbatim>\<open>tld\<close> and \<^verbatim>\<open>domain_length\<close> columns of the stored batch
  (adding them, or overwriting a column of that name) and leaves every other column, the
  row count and the WinEvent batch as they were.
\<close>

theorem dns_analysis_frame:
  assumes "dns_ready s df domain"
  shows "\<exists>df'. dns_df (snd (analyze_dns_logs s)) = Some df' \<and>
           nrows df' = nrows df \<and>
           map_of (cols df') ''tld'' = Some (tld_column domain) \<and>
           map_of (cols df') ''domain_length'' = Some (domain_length_column domain) \<and>
           (\<forall>c. c \<noteq> ''tld'' \<and> c \<noteq> ''domain_length'' \<longrightarrow> map_of (cols df') c = map_of (cols df) c) \<and>
           winevent_df (snd (analyze_dns_logs s)) = winevent_df s"
proof -
  from analyze_dns_logs_ready [OF assms] obtain out df' where
    a: "analyze_dns_logs s =
          (Inr out, s\<lparr>dns_df := Some df',
                     self_suspicious_events := AList.update ''DNS'' out (self_suspicious_events s)\<rparr>)"
    and d: "df' = set_col (set_col df ''tld'' (tld_column domain)) ''domain_length''
                    (domain_length_column domain)"
    by blast
  show ?thesis
    unfolding a d by (simp add: map_of_set_col)
qed

theorem dns_analysis_frame_witness:
  "dns_ready tld_state tld_batch [StrV ''a.xyz''] \<and>
   (\<exists>df'. dns_df (snd (analyze_dns_logs tld_state)) = Some df' \<and>
           nrows df' = nrows tld_batch \<and>
           map_of (cols df') ''tld'' = Some (tld_column [StrV ''a.xyz'']) \<and>
           map_of (cols df') ''domain_length'' = Some (domain_length_column [StrV ''a.xyz'']) \<and>
           (\<forall>c. c \<noteq> ''tld'' \<and> c \<noteq> ''domain_length'' \<longrightarrow> map_of (cols df') c = map_of (cols tld_batch) c) \<and>
           winevent_df (snd (analyze_dns_logs tld_state)) = winevent_df tld_state)"
proof -
  have r: "dns_ready tld_state tld_batch [StrV ''a.xyz'']"
    by (simp add: dns_ready_def tld_state_def tld_batch_def)
  show ?thesis using r dns_analysis_frame [OF r] by simp
qed

text \<open>
  Claim C10 as stated fails twice: a \<^verbatim>\<open>tld\<close> column present before the run is
  overwritten, and an empty batch with a \<^verbatim>\<open>domain\<close> column gets no \<^verbatim>\<open>tld\<close> column.
\<close>

theorem preexisting_tld_column_counterexample:
  "map_of (cols tld_batch) ''tld'' = Some [StrV ''old''] \<and>
   map_option (\<lambda>df. map_of (cols df) ''tld'') (dns_df (snd (analyze_dns_logs tld_state)))
     = Some (Some [StrV ''.xyz'']) \<and>
   map_of (cols empty_batch) ''domain'' = Some [] \<and>
   map_option (\<lambda>df. map_of (cols df) ''tld'') (dns_df (snd (analyze_dns_logs empty_state)))
     = Some None"
  by (simp add: tld_batch_def tld_state_def empty_batch_def empty_state_def analyze_dns_logs_def
      get_col_def Let_def map_of_set_col tld_column_def get_tld_def isna_def)

section \<open>DNS analysis: top-level domains\<close>

lemma split_dot_nonempty [simp]: "split_dot s \<noteq> []"
  by (induction s) simp_all

lemma split_dot_no_dot: "CHR ''.'' \<notin> set s \<Longrightarrow> split_dot s = [s]"
  by (induction s) auto

lemma length_split_dot: "(Suc 0 < length (split_dot s)) = (CHR ''.'' \<in> set s)"
proof (induction s)
  case Nil
  then show ?case by simp
next
  case (Cons c cs)
  show ?case
  proof (cases "c = CHR ''.''")
    case True
    have "0 < length (split_dot cs)" by simp
    then show ?thesis using True by simp
  next
    case False
    have "length (tl (split_dot cs)) = length (split_dot cs) - 1" by simp
    moreover have "0 < length (split_dot cs)" by simp
    ultimately show ?thesis using False Cons.IH by auto
  qed
qed

lemma after_final_dot_Cons:
  "after_final_dot (c # cs) =
     (if CHR ''.'' \<in> set cs then after_final_dot cs
      else if c = CHR ''.'' then cs else c # cs)"
  by (auto simp: after_final_dot_def takeWhile_append takeWhile_eq_all_conv)

lemma last_split_dot: "last (split_dot s) = after_final_dot s"
proof (induction s)
  case Nil
  then show ?case by (simp add: after_final_dot_def)
next
  case (Cons c cs)
  show ?case
  proof (cases "CHR ''.'' \<in> set cs")
    case True
    then have "1 < length (split_dot cs)" by (simp add: length_split_dot)
    then have "tl (split_dot cs) \<noteq> []" by (cases "split_dot cs") auto
    then have "last (split_dot (c # cs)) = last (split_dot cs)"
      by (cases "split_dot cs") (auto simp: last_tl)
    then show ?thesis using True Cons.IH by (simp add: after_final_dot_Cons)
  next
    case False
    then show ?thesis by (simp add: split_dot_no_dot after_final_dot_Cons)
  qed
qed

lemma get_tld_spec_tld: "get_tld d = spec_tld d"
  by (simp add: get_tld_def spec_tld_def Let_def length_split_dot last_split_dot)

lemma length_suspicious_tld_queries:
  "length (suspicious_tld_queries (tld_column domain)) =
     length (filter (\<lambda>d. spec_tld d \<in> set suspicious_tlds) domain)"
proof -
  have "(StrV (get_tld d) \<in> set (map StrV suspicious_tlds)) = (spec_tld d \<in> set suspicious_tlds)" for d
    by (auto simp: get_tld_spec_tld)
  then show ?thesis
    by (simp add: suspicious_tld_queries_def tld_column_def filter_map comp_def)
qed

text \<open>
  Claim C7. For every domain cell the TLD the heuristic uses is the suffix of its string
  form from the final dot on (the dot and the label after it, written as the entries of
  the suspicious set are), and the empty string when the string has no dot or the cell is
  missing; the empty string is not in the fixed suspicious set; and on every stored,
  non-empty batch with a \<^verbatim>\<open>domain\<close> column the count under "Unusual TLD Queries" is
  the number of records whose TLD is in that set.
\<close>

theorem unusual_tld_queries_count:
  assumes "dns_ready s df domain"
  shows "(\<forall>d. get_tld d = spec_tld d) \<and>
         [] \<notin> set suspicious_tlds \<and>
         set suspicious_tlds = {''.xyz'', ''.top'', ''.work'', ''.date'', ''.win'', ''.bid'',
                                ''.trade'', ''.cc'', ''.info''} \<and>
         dns_count s ''Unusual TLD Queries'' =
           Some (length (filter (\<lambda>d. spec_tld d \<in> set suspicious_tlds) domain))"
  using dns_count_ready(2) [OF assms]
  by (simp add: get_tld_spec_tld length_suspicious_tld_queries) (simp add: suspicious_tlds_def)

lemma example_spec_tlds:
  "map spec_tld example_domains =
     [''.xyz'', ''.xyz'', ''.com'', ''.com'', [], [], ''.com'', ''.com'', ''.com'', []]"
  by (simp add: example_domains_def spec_tld_def after_final_dot_def isna_def str_int_def
      str_nat.simps)

theorem unusual_tld_queries_count_witness:
  "dns_ready example_state example_batch example_domains \<and>
   (\<forall>d. get_tld d = spec_tld d) \<and>
   [] \<notin> set suspicious_tlds \<and>
   set suspicious_tlds = {''.xyz'', ''.top'', ''.work'', ''.date'', ''.win'', ''.bid'',
                          ''.trade'', ''.cc'', ''.info''} \<and>
   dns_count example_state ''Unusual TLD Queries'' =
     Some (length (filter (\<lambda>d. spec_tld d \<in> set suspicious_tlds) example_domains))"
  using ready_example unusual_tld_queries_count [OF ready_example] by simp

lemma example_unusual_tld_count:
  "dns_count example_state ''Unusual TLD Queries'' = Some 2"
proof -
  have "length (filter (\<lambda>d. spec_tld d \<in> set suspicious_tlds) example_domains) =
        length (filter (\<lambda>t. t \<in> set suspicious_tlds) (map spec_tld example_domains))"
    by (simp add: filter_map comp_def)
  also have "\<dots> = 2"
    unfolding example_spec_tlds by (simp add: suspicious_tlds_def)
  finally show ?thesis
    using dns_count_ready(2) [OF ready_example] by (simp add: length_suspicious_tld_queries)
qed

lemma example_rare_domain_count:
  "dns_count example_state ''Rare Domain Queries'' = Some 5"
  using dns_count_ready(1) [OF ready_example]
  by (simp add: rare_domains_def)
     (simp add: example_domains_def value_counts_def unique_def isna_def)

end
